theory Spec2Isabelle
  imports Complex_Main "HOL-Library.Sublist"
begin

section \<open>JavaScript values used by the sources\<close>

text \<open>
  A JavaScript string is a sequence of code units. The model uses \<^typ>\<open>string\<close>, so a
  character is a code unit in the range 0..255; every literal of the three source files lies
  in that range (the accented letters of the French messages are written \<open>CHR 0xE9\<close> and
  so on). A value that may be \<^verbatim>\<open>undefined\<close> is an \<^typ>\<open>'a option\<close>.
\<close>

text \<open>Truthiness of an optional string: \<^verbatim>\<open>undefined\<close> and the empty string are falsy.\<close>

fun truthy :: "string option \<Rightarrow> bool" where
  "truthy None = False"
| "truthy (Some s) = (s \<noteq> [])"

text \<open>\<^verbatim>\<open>Array.prototype.indexOf\<close>: the first index holding the value, or -1.\<close>

fun indexOf :: "'a list \<Rightarrow> 'a \<Rightarrow> int" where
  "indexOf [] x = -1"
| "indexOf (y # ys) x =
     (if y = x then 0
      else (let i = indexOf ys x in if i = -1 then -1 else i + 1))"

text \<open>
  The remainder operator \<^verbatim>\<open>%\<close> on integers: the sign follows the dividend, and a zero
  divisor gives \<^verbatim>\<open>NaN\<close> (here \<open>None\<close>).
\<close>

definition js_rem :: "int \<Rightarrow> int \<Rightarrow> int option" where
  "js_rem a b = (if b = 0 then None else Some (sgn a * (\<bar>a\<bar> mod \<bar>b\<bar>)))"

text \<open>
  Reading \<^verbatim>\<open>xs[i]\<close>: an index that is \<^verbatim>\<open>NaN\<close>, negative or past the end reads
  \<^verbatim>\<open>undefined\<close>.
\<close>

definition at_index :: "'a list \<Rightarrow> int option \<Rightarrow> 'a option" where
  "at_index xs i =
     (case i of
        None \<Rightarrow> None
      | Some j \<Rightarrow> if 0 \<le> j \<and> j < int (length xs) then Some (xs ! nat j) else None)"

section \<open>Pose navigation (components/Canvas.tsx)\<close>

text \<open>
  What a navigation handler does to its \<^verbatim>\<open>onSelectPose\<close> callback: it returns without
  calling it, or calls it once with the element read from the list.
\<close>

datatype select_call = NoCall | OnSelectPose "string option"

definition handlePreviousPose :: "bool \<Rightarrow> string list \<Rightarrow> string \<Rightarrow> select_call" where
  "handlePreviousPose isLoading poseInstructions currentPoseInstruction =
     (if isLoading then NoCall
      else
        (let currentIndex = indexOf poseInstructions currentPoseInstruction;
             newIndex =
               (if currentIndex = -1 then Some (int (length poseInstructions) - 1)
                else js_rem (currentIndex - 1 + int (length poseInstructions))
                            (int (length poseInstructions)))
         in OnSelectPose (at_index poseInstructions newIndex)))"

definition handleNextPose :: "bool \<Rightarrow> string list \<Rightarrow> string \<Rightarrow> select_call" where
  "handleNextPose isLoading poseInstructions currentPoseInstruction =
     (if isLoading then NoCall
      else
        (let currentIndex = indexOf poseInstructions currentPoseInstruction;
             newIndex =
               (if currentIndex = -1 then Some 0
                else js_rem (currentIndex + 1) (int (length poseInstructions)))
         in OnSelectPose (at_index poseInstructions newIndex)))"

section \<open>More JavaScript string operations\<close>

text \<open>
  \<^verbatim>\<open>String.prototype.split\<close> with a separator string (nonempty in every call of the
  sources): the segments between the occurrences of the separator, found from the left.
\<close>

fun str_split :: "string \<Rightarrow> string \<Rightarrow> string list" where
  "str_split sep [] = [[]]"
| "str_split sep (c # cs) =
     (if prefix sep (c # cs) then [] # str_split sep (drop (length sep - 1) cs)
      else (case str_split sep cs of
              [] \<Rightarrow> [[c]]
            | s # ss \<Rightarrow> (c # s) # ss))"

text \<open>\<^verbatim>\<open>String.prototype.includes\<close>: the argument occurs as a contiguous substring.\<close>

fun str_includes :: "string \<Rightarrow> string \<Rightarrow> bool" where
  "str_includes [] sub = (sub = [])"
| "str_includes (c # cs) sub = (prefix sub (c # cs) \<or> str_includes cs sub)"

text \<open>
  \<^verbatim>\<open>String.prototype.trim\<close> removes white space and line terminators at both ends; below
  256 these are TAB, LF, VT, FF, CR, space and the no-break space.
\<close>

definition is_white_space :: "char \<Rightarrow> bool" where
  "is_white_space c \<longleftrightarrow>
     c \<in> {CHR 0x09, CHR 0x0A, CHR 0x0B, CHR 0x0C, CHR 0x0D, CHR 0x20, CHR 0xA0}"

definition trim :: "string \<Rightarrow> string" where
  "trim s = rev (dropWhile is_white_space (rev (dropWhile is_white_space s)))"

text \<open>
  The regular expression \<^verbatim>\<open>/:(.*?);/\<close> of \<^verbatim>\<open>dataUrlToParts\<close>. The dot matches
  any character but a line terminator (below 256: LF and CR), and the lazy star stops at
  the first semicolon. \<open>lazy_group cs\<close> is the captured group when the match starts at a
  colon that is followed by \<open>cs\<close>; \<open>mimeMatch s\<close> tries the colons of \<open>s\<close> from the left
  and gives the group of the first match, as \<^verbatim>\<open>s.match(...)\<close> does in its element 1.
\<close>

definition is_line_terminator :: "char \<Rightarrow> bool" where
  "is_line_terminator c \<longleftrightarrow> c = CHR 0x0A \<or> c = CHR 0x0D"

fun lazy_group :: "string \<Rightarrow> string option" where
  "lazy_group [] = None"
| "lazy_group (c # cs) =
     (if c = CHR '';'' then Some []
      else if is_line_terminator c then None
      else map_option (\<lambda>g. c # g) (lazy_group cs))"

fun mimeMatch :: "string \<Rightarrow> string option" where
  "mimeMatch [] = None"
| "mimeMatch (c # cs) =
     (if c = CHR '':'' then
        (case lazy_group cs of
           Some g \<Rightarrow> Some g
         | None \<Rightarrow> mimeMatch cs)
      else mimeMatch cs)"

section \<open>The generation service (services/geminiService.ts)\<close>

subsection \<open>Data\<close>

text \<open>
  Modelled from the spec: the types of the generative API (\<^verbatim>\<open>GenerateContentResponse\<close>
  and its parts) are declared by the client library, not by this repository. Section 6 of
  the specification gives their shape: optional prompt feedback with a block reason and an
  optional message, optional candidates, each with optional content, optional parts and an
  optional finish reason, an inline image being a pair of a MIME type and base64 data, and
  an optional aggregate text.
\<close>

record blob =
  mimeType :: string
  data :: string

datatype part = InlineData blob | Text string

fun inlineData :: "part \<Rightarrow> blob option" where
  "inlineData (InlineData b) = Some b"
| "inlineData (Text t) = None"

record gen_content =
  parts :: "part list option"

record candidate =
  content :: "gen_content option"
  finishReason :: "string option"

record prompt_feedback =
  blockReason :: "string option"
  blockReasonMessage :: "string option"

record response =
  promptFeedback :: "prompt_feedback option"
  candidates :: "candidate list option"
  "text" :: "string option"

record request =
  model :: string
  contents :: gen_content

text \<open>
  Every \<^verbatim>\<open>throw\<close> of the service is a constructor: the two of \<^verbatim>\<open>dataUrlToParts\<close>,
  the three of \<^verbatim>\<open>handleApiResponse\<close> with the values their messages interpolate, and
  the rejections that come from outside (the file reader, the API client).
\<close>

datatype error =
    InvalidDataUrl
  | MimeTypeNotParsed
  | RequestBlocked string "string option"
  | AbnormalStop string
  | NoImageReturned "string option"
  | ReadError
  | ApiError

text \<open>
  The message of the thrown \<^verbatim>\<open>Error\<close>, for the errors the service itself creates; a
  rejection from outside carries whatever the browser or the client library gives it.
\<close>

fun errorMessage :: "error \<Rightarrow> string option" where
  "errorMessage InvalidDataUrl = Some ''Invalid data URL''"
| "errorMessage MimeTypeNotParsed = Some ''Could not parse MIME type from data URL''"
| "errorMessage (RequestBlocked reason message) =
     Some (''La requ'' @ [CHR 0xEA] @ ''te a '' @ [CHR 0xE9] @ ''t'' @ [CHR 0xE9] @ '' bloqu''
           @ [CHR 0xE9] @ ''e. Raison : ''
           @ reason @ ''. ''
           @ (if truthy message then the message else []))"
| "errorMessage (AbnormalStop reason) =
     Some (''La g'' @ [CHR 0xE9] @ ''n'' @ [CHR 0xE9] @ ''ration d'' @ [CHR 0x27]
           @ ''image s'' @ [CHR 0x27] @ ''est arr'' @ [CHR 0xEA] @ ''t'' @ [CHR 0xE9]
           @ ''e de mani'' @ [CHR 0xE8] @ ''re inattendue. Raison : ''
           @ reason @
           ''. Cela est souvent li'' @ [CHR 0xE9] @ '' aux param'' @ [CHR 0xE8]
           @ ''tres de s'' @ [CHR 0xE9] @ ''curit'' @ [CHR 0xE9] @ ''.'')"
| "errorMessage (NoImageReturned textFeedback) =
     Some (''Le mod'' @ [CHR 0xE8] @ ''le IA n'' @ [CHR 0x27] @ ''a pas retourn'' @ [CHR 0xE9]
           @ '' d'' @ [CHR 0x27] @ ''image. ''
           @ (if truthy textFeedback then
                ''Le mod'' @ [CHR 0xE8] @ ''le a r'' @ [CHR 0xE9] @ ''pondu avec le texte : ''
                     @ [CHR 0x22]
                @ the textFeedback @ [CHR 0x22]
              else
                ''Cela peut se produire '' @ [CHR 0xE0] @ '' cause des filtres de s''
                     @ [CHR 0xE9] @ ''curit'' @ [CHR 0xE9] @ '' ou si la requ'' @ [CHR 0xEA]
                     @ ''te est trop complexe. Veuillez essayer une autre image.''))"
| "errorMessage ReadError = None"
| "errorMessage ApiError = None"

subsection \<open>Decoding a data URL\<close>

definition dataUrlToParts :: "string \<Rightarrow> error + blob" where
  "dataUrlToParts dataUrl =
     (case str_split '','' dataUrl of
        header # payload # rest \<Rightarrow>
          (case mimeMatch header of
             None \<Rightarrow> Inl MimeTypeNotParsed
           | Some mime \<Rightarrow>
               if mime = [] then Inl MimeTypeNotParsed
               else Inr \<lparr>mimeType = mime, data = payload\<rparr>)
      | _ \<Rightarrow> Inl InvalidDataUrl)"

definition dataUrlToPart :: "string \<Rightarrow> error + part" where
  "dataUrlToPart dataUrl =
     (case dataUrlToParts dataUrl of
        Inl e \<Rightarrow> Inl e
      | Inr b \<Rightarrow> Inr (InlineData b))"

text \<open>
  \<^verbatim>\<open>fileToPart\<close> awaits the browser's file reader, which is outside the repository: the
  reader is the parameter \<open>readAsDataURL\<close>, giving the data URL of a file or rejecting.
\<close>

definition fileToPart :: "('file \<Rightarrow> error + string) \<Rightarrow> 'file \<Rightarrow> error + part" where
  "fileToPart readAsDataURL file =
     (case readAsDataURL file of
        Inl e \<Rightarrow> Inl e
      | Inr dataUrl \<Rightarrow>
          (case dataUrlToParts dataUrl of
             Inl e \<Rightarrow> Inl e
           | Inr b \<Rightarrow> Inr (InlineData b)))"

subsection \<open>Classifying a response\<close>

text \<open>\<^verbatim>\<open>response.promptFeedback?.blockReason\<close>\<close>

definition promptBlockReason :: "response \<Rightarrow> string option" where
  "promptBlockReason r =
     (case promptFeedback r of None \<Rightarrow> None | Some pf \<Rightarrow> blockReason pf)"

text \<open>The callback \<^verbatim>\<open>part => part.inlineData\<close>, read as a truth value.\<close>

definition hasInlineData :: "part \<Rightarrow> bool" where
  "hasInlineData p \<longleftrightarrow> inlineData p \<noteq> None"

text \<open>\<^verbatim>\<open>candidate.content?.parts?.find(part => part.inlineData)\<close>\<close>

definition imagePart :: "candidate \<Rightarrow> part option" where
  "imagePart c =
     (case content c of
        None \<Rightarrow> None
      | Some ct \<Rightarrow>
          (case parts ct of
             None \<Rightarrow> None
           | Some ps \<Rightarrow> find hasInlineData ps))"

text \<open>
  The loop over \<^verbatim>\<open>response.candidates ?? []\<close>, which returns from the function at the
  first candidate that has an image part.
\<close>

fun firstImage :: "candidate list \<Rightarrow> blob option" where
  "firstImage [] = None"
| "firstImage (c # cs) =
     (case imagePart c of
        None \<Rightarrow> firstImage cs
      | Some p \<Rightarrow>
          (case inlineData p of
             None \<Rightarrow> firstImage cs
           | Some b \<Rightarrow> Some b))"

text \<open>\<^verbatim>\<open>response.candidates?.[0]?.finishReason\<close>\<close>

definition firstFinishReason :: "response \<Rightarrow> string option" where
  "firstFinishReason r =
     (case candidates r of
        None \<Rightarrow> None
      | Some [] \<Rightarrow> None
      | Some (c # cs) \<Rightarrow> finishReason c)"

text \<open>\<^verbatim>\<open>response.candidates ?? []\<close>\<close>

definition candidateList :: "response \<Rightarrow> candidate list" where
  "candidateList r = (case candidates r of None \<Rightarrow> [] | Some cs \<Rightarrow> cs)"

text \<open>The template literal \<^verbatim>\<open>`data:${mimeType};base64,${data}`\<close>\<close>

definition imageDataUrl :: "blob \<Rightarrow> string" where
  "imageDataUrl b = ''data:'' @ mimeType b @ '';base64,'' @ data b"

definition handleApiResponse :: "response \<Rightarrow> error + string" where
  "handleApiResponse r =
     (if truthy (promptBlockReason r) then
        Inl (RequestBlocked (the (promptBlockReason r))
               (case promptFeedback r of None \<Rightarrow> None | Some pf \<Rightarrow> blockReasonMessage pf))
      else
        (case firstImage (candidateList r) of
           Some b \<Rightarrow> Inr (imageDataUrl b)
         | None \<Rightarrow>
             (let reason = firstFinishReason r in
              if truthy reason \<and> reason \<noteq> Some ''STOP''
              then Inl (AbnormalStop (the reason))
              else Inl (NoImageReturned (map_option trim (text r))))))"

subsection \<open>Applying a garment\<close>

definition model_name :: string where
  "model_name = ''gemini-2.5-flash-image''"

definition tryOnPrompt :: string where
  "tryOnPrompt =
     ''Vous '' @ [CHR 0xEA]
     @ ''tes une IA experte en essayage virtuel. Vous recevrez une '' @ [CHR 0x27]
     @ ''image de mannequin'' @ [CHR 0x27] @ '' et une '' @ [CHR 0x27] @ ''image de v''
     @ [CHR 0xEA] @ ''tement'' @ [CHR 0x27] @ ''. Votre t'' @ [CHR 0xE2]
     @ ''che est de cr'' @ [CHR 0xE9] @ ''er une nouvelle image photor'' @ [CHR 0xE9]
     @ ''aliste o'' @ [CHR 0xF9] @ '' la personne de l'' @ [CHR 0x27] @ '' ''
     @ [CHR 0x27] @ ''image de mannequin'' @ [CHR 0x27] @ '' porte le v'' @ [CHR 0xEA]
     @ ''tement de l'' @ [CHR 0x27] @ '' '' @ [CHR 0x27] @ ''image de v'' @ [CHR 0xEA]
     @ ''tement'' @ [CHR 0x27] @ ''.'' @ [CHR 0x0A] @ [CHR 0x0A] @ ''**R'' @ [CHR 0xE8]
     @ ''gles cruciales :**'' @ [CHR 0x0A] @ ''1.  **Remplacement complet du v''
     @ [CHR 0xEA] @ ''tement :** Vous DEVEZ compl'' @ [CHR 0xE8]
     @ ''tement RETIRER et REMPLACER le v'' @ [CHR 0xEA] @ ''tement port'' @ [CHR 0xE9]
     @ '' par la personne dans l'' @ [CHR 0x27] @ '' '' @ [CHR 0x27]
     @ ''image de mannequin'' @ [CHR 0x27] @ '' par le nouveau v'' @ [CHR 0xEA]
     @ ''tement. Aucune partie du v'' @ [CHR 0xEA] @ ''tement d'' @ [CHR 0x27]
     @ ''origine (par exemple, cols, manches, motifs) ne doit '' @ [CHR 0xEA]
     @ ''tre visible dans l'' @ [CHR 0x27] @ ''image finale.'' @ [CHR 0x0A]
     @ ''2.  **Pr'' @ [CHR 0xE9]
     @ ''server le mannequin :** Le visage, les cheveux, la silhouette ''
     @ ''et la pose de la personne de l'' @ [CHR 0x27] @ '' '' @ [CHR 0x27]
     @ ''image de mannequin'' @ [CHR 0x27] @ '' DOIVENT rester inchang'' @ [CHR 0xE9]
     @ ''s.'' @ [CHR 0x0A] @ ''3.  **Pr'' @ [CHR 0xE9] @ ''server l'' @ [CHR 0x27]
     @ ''arri'' @ [CHR 0xE8] @ ''re-plan :** L'' @ [CHR 0x27] @ ''int'' @ [CHR 0xE9]
     @ ''gralit'' @ [CHR 0xE9] @ '' de l'' @ [CHR 0x27] @ ''arri'' @ [CHR 0xE8]
     @ ''re-plan de l'' @ [CHR 0x27] @ '' '' @ [CHR 0x27] @ ''image de mannequin''
     @ [CHR 0x27] @ '' DOIT '' @ [CHR 0xEA] @ ''tre parfaitement pr'' @ [CHR 0xE9]
     @ ''serv'' @ [CHR 0xE9] @ ''e.'' @ [CHR 0x0A] @ ''4.  **Appliquer le v''
     @ [CHR 0xEA] @ ''tement :** Ajustez de mani'' @ [CHR 0xE8] @ ''re r'' @ [CHR 0xE9]
     @ ''aliste le nouveau v'' @ [CHR 0xEA] @ ''tement sur la personne. Il doit s''
     @ [CHR 0x27] @ ''adapter '' @ [CHR 0xE0]
     @ '' sa pose avec des plis, des ombres et un '' @ [CHR 0xE9]
     @ ''clairage naturels, coh'' @ [CHR 0xE9] @ ''rents avec la sc'' @ [CHR 0xE8]
     @ ''ne originale.'' @ [CHR 0x0A] @ ''5.  **Sortie :** Retournez UNIQUEMENT l''
     @ [CHR 0x27] @ ''image finale, '' @ [CHR 0xE9] @ ''dit'' @ [CHR 0xE9] @ ''e. N''
     @ [CHR 0x27] @ ''incluez aucun texte.''"

text \<open>
  The API client is outside the repository: \<open>generateContent\<close> is a parameter, answering
  a request with a response or rejecting. The operation returns its own result together
  with the requests it has issued, in order.
\<close>

definition generateVirtualTryOnImage ::
  "('file \<Rightarrow> error + string) \<Rightarrow> (request \<Rightarrow> error + response) \<Rightarrow> string \<Rightarrow> 'file
     \<Rightarrow> (error + string) \<times> request list" where
  "generateVirtualTryOnImage readAsDataURL generateContent modelImageUrl garmentImage =
     (case dataUrlToPart modelImageUrl of
        Inl e \<Rightarrow> (Inl e, [])
      | Inr modelImagePart \<Rightarrow>
          (case fileToPart readAsDataURL garmentImage of
             Inl e \<Rightarrow> (Inl e, [])
           | Inr garmentImagePart \<Rightarrow>
               (let req = \<lparr>model = model_name,
                           contents =
                             \<lparr>parts = Some [modelImagePart, garmentImagePart,
                                             Text tryOnPrompt]\<rparr>\<rparr>
                in case generateContent req of
                     Inl e \<Rightarrow> (Inl e, [req])
                   | Inr response \<Rightarrow> (handleApiResponse response, [req]))))"

section \<open>JSON.parse\<close>

text \<open>
  \<^verbatim>\<open>JSON.parse\<close> belongs to the language, not to the repository. The model follows the JSON
  grammar: a lexer that turns the text into tokens (or fails), and a parser that reads the
  tokens with a stack of open arrays and objects. A failure (\<open>None\<close>) is the
  \<^verbatim>\<open>SyntaxError\<close> that \<^verbatim>\<open>JSON.parse\<close> throws. Strings hold code units below 256: an escape
  \<^verbatim>\<open>\uXXXX\<close> above that range is outside this model and the lexer stops there. A number
  keeps its literal, which no caller reads.
\<close>

datatype json =
    JNull
  | JBool bool
  | JNumber string
  | JString string
  | JArray "json list"
  | JObject "(string \<times> json) list"

datatype token =
    TLBrace | TRBrace | TLBracket | TRBracket | TColon | TComma
  | TString string | TNumber string | TTrue | TFalse | TNull

definition is_json_ws :: "char \<Rightarrow> bool" where
  "is_json_ws c \<longleftrightarrow> c \<in> {CHR 0x20, CHR 0x09, CHR 0x0A, CHR 0x0D}"

definition is_digit :: "char \<Rightarrow> bool" where
  "is_digit c \<longleftrightarrow> c \<in> set ''0123456789''"

definition hex_digit :: "char \<Rightarrow> nat option" where
  "hex_digit c =
     (if c \<in> set ''0123456789'' then Some (of_char c - 48)
      else if c \<in> set ''abcdef'' then Some (of_char c - 87)
      else if c \<in> set ''ABCDEF'' then Some (of_char c - 55)
      else None)"

definition hex4 :: "char \<Rightarrow> char \<Rightarrow> char \<Rightarrow> char \<Rightarrow> nat option" where
  "hex4 a b c d =
     (case (hex_digit a, hex_digit b, hex_digit c, hex_digit d) of
        (Some h3, Some h2, Some h1, Some h0) \<Rightarrow> Some (((h3 * 16 + h2) * 16 + h1) * 16 + h0)
      | _ \<Rightarrow> None)"

text \<open>The character after a backslash, for the escapes of one character.\<close>

definition simple_escape :: "char \<Rightarrow> char option" where
  "simple_escape e =
     (if e = CHR 0x22 then Some (CHR 0x22)
      else if e = CHR 0x5C then Some (CHR 0x5C)
      else if e = CHR ''/'' then Some (CHR ''/'')
      else if e = CHR ''b'' then Some (CHR 0x08)
      else if e = CHR ''f'' then Some (CHR 0x0C)
      else if e = CHR ''n'' then Some (CHR 0x0A)
      else if e = CHR ''r'' then Some (CHR 0x0D)
      else if e = CHR ''t'' then Some (CHR 0x09)
      else None)"

text \<open>
  The characters of a string after its opening quote: the decoded string and the number of
  characters read, the closing quote included.
\<close>

fun lex_string :: "string \<Rightarrow> (string \<times> nat) option" where
  "lex_string [] = None"
| "lex_string (c # cs) =
     (if c = CHR 0x22 then Some ([], 1)
      else if c = CHR 0x5C then
        (case cs of
           [] \<Rightarrow> None
         | e # es \<Rightarrow>
             if e = CHR ''u'' then
               (case es of
                  a # b # c' # d # rest \<Rightarrow>
                    (case hex4 a b c' d of
                       None \<Rightarrow> None
                     | Some code \<Rightarrow>
                         if code < 256 then
                           map_option (\<lambda>(s, n). (char_of code # s, n + 6)) (lex_string rest)
                         else None)
                | _ \<Rightarrow> None)
             else
               (case simple_escape e of
                  None \<Rightarrow> None
                | Some ch \<Rightarrow> map_option (\<lambda>(s, n). (ch # s, n + 2)) (lex_string es)))
      else if (of_char c :: nat) < 32 then None
      else map_option (\<lambda>(s, n). (c # s, n + 1)) (lex_string cs))"

text \<open>
  The length of the number literal at the start of a string: an optional minus, an integer
  part without a leading zero, an optional fraction and an optional exponent, each with at
  least one digit.
\<close>

definition digits :: "string \<Rightarrow> nat" where
  "digits s = length (takeWhile is_digit s)"

definition lex_int :: "string \<Rightarrow> nat option" where
  "lex_int s =
     (case s of
        [] \<Rightarrow> None
      | d # ds \<Rightarrow>
          if d = CHR ''0'' then Some 1
          else if is_digit d then Some (1 + digits ds)
          else None)"

definition lex_frac :: "string \<Rightarrow> nat option" where
  "lex_frac s =
     (case s of
        [] \<Rightarrow> Some 0
      | d # ds \<Rightarrow>
          if d = CHR ''.'' then (if digits ds = 0 then None else Some (1 + digits ds))
          else Some 0)"

definition lex_exp :: "string \<Rightarrow> nat option" where
  "lex_exp s =
     (case s of
        [] \<Rightarrow> Some 0
      | e # es \<Rightarrow>
          if e = CHR ''e'' \<or> e = CHR ''E'' then
            (let sign = (case es of
                           [] \<Rightarrow> 0
                         | p # ps \<Rightarrow> if p = CHR ''+'' \<or> p = CHR ''-'' then 1 else 0)
             in if digits (drop sign es) = 0 then None
                else Some (1 + sign + digits (drop sign es)))
          else Some 0)"

definition lex_number :: "string \<Rightarrow> nat option" where
  "lex_number s =
     (let minus = (case s of [] \<Rightarrow> 0 | m # ms \<Rightarrow> if m = CHR ''-'' then 1 else 0) in
      case lex_int (drop minus s) of
        None \<Rightarrow> None
      | Some i \<Rightarrow>
          (case lex_frac (drop (minus + i) s) of
             None \<Rightarrow> None
           | Some f \<Rightarrow>
               (case lex_exp (drop (minus + i + f) s) of
                  None \<Rightarrow> None
                | Some e \<Rightarrow> Some (minus + i + f + e))))"

fun lex :: "string \<Rightarrow> token list option" where
  "lex [] = Some []"
| "lex (c # cs) =
     (if is_json_ws c then lex cs
      else if c = CHR ''{'' then map_option ((#) TLBrace) (lex cs)
      else if c = CHR ''}'' then map_option ((#) TRBrace) (lex cs)
      else if c = CHR ''['' then map_option ((#) TLBracket) (lex cs)
      else if c = CHR '']'' then map_option ((#) TRBracket) (lex cs)
      else if c = CHR '':'' then map_option ((#) TColon) (lex cs)
      else if c = CHR '','' then map_option ((#) TComma) (lex cs)
      else if c = CHR 0x22 then
        (case lex_string cs of
           None \<Rightarrow> None
         | Some (s, n) \<Rightarrow> map_option ((#) (TString s)) (lex (drop n cs)))
      else if c = CHR ''-'' \<or> is_digit c then
        (case lex_number (c # cs) of
           None \<Rightarrow> None
         | Some n \<Rightarrow> map_option ((#) (TNumber (take n (c # cs)))) (lex (drop (n - 1) cs)))
      else if prefix ''true'' (c # cs) then map_option ((#) TTrue) (lex (drop 3 cs))
      else if prefix ''false'' (c # cs) then map_option ((#) TFalse) (lex (drop 4 cs))
      else if prefix ''null'' (c # cs) then map_option ((#) TNull) (lex (drop 3 cs))
      else None)"

text \<open>
  The parser. A frame is an open array with its elements so far, or an open object with
  its members so far and the key that waits for its value (both lists latest first). The
  state says what may come next.
\<close>

datatype frame = ArrayFrame "json list" | ObjectFrame "(string \<times> json) list" string

datatype expect =
    ExpValue
  | ExpValueOrClose
  | ExpKeyOrClose
  | ExpKey
  | ExpColon
  | ExpCommaOrClose
  | ExpEnd json

text \<open>A finished value goes into the innermost open container, or is the result.\<close>

fun complete :: "json \<Rightarrow> frame list \<Rightarrow> expect \<times> frame list" where
  "complete v [] = (ExpEnd v, [])"
| "complete v (ArrayFrame elems # stack) = (ExpCommaOrClose, ArrayFrame (v # elems) # stack)"
| "complete v (ObjectFrame members key # stack) =
     (ExpCommaOrClose, ObjectFrame ((key, v) # members) key # stack)"

definition expects_value :: "expect \<Rightarrow> bool" where
  "expects_value st \<longleftrightarrow> st = ExpValue \<or> st = ExpValueOrClose"

fun scalar :: "token \<Rightarrow> json option" where
  "scalar (TString s) = Some (JString s)"
| "scalar (TNumber n) = Some (JNumber n)"
| "scalar TTrue = Some (JBool True)"
| "scalar TFalse = Some (JBool False)"
| "scalar TNull = Some JNull"
| "scalar t = None"

text \<open>One token: the next state and stack, or a syntax error.\<close>

definition step :: "expect \<Rightarrow> frame list \<Rightarrow> token \<Rightarrow> (expect \<times> frame list) option" where
  "step st stack t =
     (if expects_value st \<and> scalar t \<noteq> None then Some (complete (the (scalar t)) stack)
      else if expects_value st \<and> t = TLBracket then Some (ExpValueOrClose, ArrayFrame [] # stack)
      else if expects_value st \<and> t = TLBrace then Some (ExpKeyOrClose, ObjectFrame [] [] # stack)
      else if (st = ExpValueOrClose \<or> st = ExpCommaOrClose) \<and> t = TRBracket then
        (case stack of
           ArrayFrame elems # rest \<Rightarrow> Some (complete (JArray (rev elems)) rest)
         | _ \<Rightarrow> None)
      else if (st = ExpKeyOrClose \<or> st = ExpCommaOrClose) \<and> t = TRBrace then
        (case stack of
           ObjectFrame members key # rest \<Rightarrow> Some (complete (JObject (rev members)) rest)
         | _ \<Rightarrow> None)
      else if st = ExpKeyOrClose \<or> st = ExpKey then
        (case (t, stack) of
           (TString key, ObjectFrame members old # rest) \<Rightarrow>
             Some (ExpColon, ObjectFrame members key # rest)
         | _ \<Rightarrow> None)
      else if st = ExpColon \<and> t = TColon then Some (ExpValue, stack)
      else if st = ExpCommaOrClose \<and> t = TComma then
        (case stack of
           ArrayFrame elems # rest \<Rightarrow> Some (ExpValue, stack)
         | ObjectFrame members key # rest \<Rightarrow> Some (ExpKey, stack)
         | [] \<Rightarrow> None)
      else None)"

fun parse_tokens :: "expect \<Rightarrow> frame list \<Rightarrow> token list \<Rightarrow> json option" where
  "parse_tokens st stack [] = (case st of ExpEnd v \<Rightarrow> Some v | _ \<Rightarrow> None)"
| "parse_tokens st stack (t # ts) =
     (case step st stack t of
        None \<Rightarrow> None
      | Some (st', stack') \<Rightarrow> parse_tokens st' stack' ts)"

definition JSON_parse :: "string \<Rightarrow> json option" where
  "JSON_parse s = (case lex s of None \<Rightarrow> None | Some ts \<Rightarrow> parse_tokens ExpValue [] ts)"

text \<open>
  Reading a property of a parsed value: an object gives the value of the last member with
  that key; every other value has no property named \<^verbatim>\<open>error\<close> or \<^verbatim>\<open>message\<close>
  (\<^verbatim>\<open>undefined\<close>), and optional chaining gives \<^verbatim>\<open>undefined\<close> on \<^verbatim>\<open>null\<close>.
\<close>

fun property :: "json \<Rightarrow> string \<Rightarrow> json option" where
  "property (JObject members) key = map_of (rev members) key"
| "property v key = None"

section \<open>The error message normalizer (lib/utils.ts)\<close>

text \<open>
  The argument has type \<^verbatim>\<open>unknown\<close>. The function tells apart an \<^verbatim>\<open>Error\<close> object (with
  its message), a string, any other truthy value (with its conversion \<^verbatim>\<open>String(error)\<close>)
  and any other falsy value.
\<close>

datatype unknown =
    ErrorObject string
  | StringValue string
  | OtherTruthy string
  | OtherFalsy

fun rawMessageOf :: "unknown \<Rightarrow> string" where
  "rawMessageOf (ErrorObject message) = message"
| "rawMessageOf (StringValue s) = s"
| "rawMessageOf (OtherTruthy converted) = converted"
| "rawMessageOf OtherFalsy =
     ''Une erreur inconnue est survenue.''"

definition unsupported_marker :: string where
  "unsupported_marker = ''Unsupported MIME type''"

text \<open>\<^verbatim>\<open>errorJson?.error?.message\<close>, when it is a string.\<close>

definition nestedMessageOf :: "json \<Rightarrow> string option" where
  "nestedMessageOf errorJson =
     (case property errorJson ''error'' of
        None \<Rightarrow> None
      | Some e \<Rightarrow>
          (case property e ''message'' of
             Some (JString m) \<Rightarrow> Some m
           | _ \<Rightarrow> None))"

definition unsupportedTypeMessage :: "string \<Rightarrow> string" where
  "unsupportedTypeMessage mime =
     ''Le type de fichier '' @ [CHR 0x27]
     @ mime @
     [CHR 0x27] @ '' n'' @ [CHR 0x27]
     @ ''est pas pris en charge. Veuillez utiliser un format comme PNG, ''
     @ ''JPEG, ou WEBP.''"

definition unsupportedFormatMessage :: string where
  "unsupportedFormatMessage =
     ''Format de fichier non pris en charge. Veuillez t'' @ [CHR 0xE9] @ ''l''
     @ [CHR 0xE9] @ ''charger une image au format PNG, JPEG, ou WEBP.''"

definition getFriendlyErrorMessage :: "unknown \<Rightarrow> string \<Rightarrow> string" where
  "getFriendlyErrorMessage error context =
     (let rawMessage = rawMessageOf error in
      if str_includes rawMessage unsupported_marker then
        (case JSON_parse rawMessage of
           None \<Rightarrow> unsupportedFormatMessage
         | Some errorJson \<Rightarrow>
             (case nestedMessageOf errorJson of
                None \<Rightarrow> unsupportedFormatMessage
              | Some nestedMessage \<Rightarrow>
                  if str_includes nestedMessage unsupported_marker then
                    unsupportedTypeMessage
                      (case at_index (str_split '': '' nestedMessage) (Some 1) of
                         None \<Rightarrow> ''unsupported''
                       | Some mime \<Rightarrow> if mime = [] then ''unsupported'' else mime)
                  else unsupportedFormatMessage))
      else context @ ''. '' @ rawMessage)"

section \<open>Numbers\<close>

text \<open>
  A JavaScript Number is an IEEE 754 double: not-a-number, an infinity, or a finite value,
  which is a rational number. The sign of a zero is not kept: it could only change the sign
  of an infinite result, and every use below treats the two infinities alike.

  An arithmetic operation on finite values gives the exact result rounded to the nearest
  double, ties to the even significand. \<open>binary_exponent a\<close> is the \<open>e\<close> with
  \<open>2^e \<le> a < 2^(e+1)\<close>; a double has 53 significant bits, so the doubles near \<open>a\<close> are the
  multiples of \<open>2^(e-52)\<close>, with \<open>e\<close> not below -1022 (the subnormal doubles), and a result
  that reaches \<open>2^1024\<close> is infinite.
\<close>

datatype number = NaN | PosInf | NegInf | Fin rat

fun bit_length :: "nat \<Rightarrow> nat" where
  "bit_length n = (if n = 0 then 0 else Suc (bit_length (n div 2)))"

declare bit_length.simps [simp del]

definition pow2 :: "int \<Rightarrow> rat" where
  "pow2 e = (if 0 \<le> e then 2 ^ nat e else 1 / 2 ^ nat (- e))"

definition binary_exponent :: "rat \<Rightarrow> int" where
  "binary_exponent a =
     (if 1 \<le> a then int (bit_length (nat \<lfloor>a\<rfloor>)) - 1
      else - int (bit_length (nat \<lceil>1 / a\<rceil> - 1)))"

definition round_half_even :: "rat \<Rightarrow> int" where
  "round_half_even r =
     (let f = \<lfloor>r\<rfloor>; d = r - of_int f in
      if d < 1 / 2 then f
      else if 1 / 2 < d then f + 1
      else if even f then f
      else f + 1)"

definition round_to_double :: "rat \<Rightarrow> number" where
  "round_to_double q =
     (if q = 0 then Fin 0
      else
        (let a = \<bar>q\<bar>;
             e = max (binary_exponent a) (- 1022);
             ulp = pow2 (e - 52);
             r = of_int (round_half_even (a / ulp)) * ulp
         in if pow2 1024 \<le> r then (if q < 0 then NegInf else PosInf)
            else Fin (if q < 0 then - r else r)))"

text \<open>The sign of a number that is not NaN, for the infinite results.\<close>

fun negative :: "number \<Rightarrow> bool" where
  "negative NegInf = True"
| "negative (Fin q) = (q < 0)"
| "negative v = False"

definition infinity :: "bool \<Rightarrow> number" where
  "infinity neg = (if neg then NegInf else PosInf)"

fun is_infinite :: "number \<Rightarrow> bool" where
  "is_infinite PosInf = True"
| "is_infinite NegInf = True"
| "is_infinite v = False"

text \<open>The operators \<^verbatim>\<open>*\<close> and \<^verbatim>\<open>/\<close>.\<close>

fun js_times :: "number \<Rightarrow> number \<Rightarrow> number" where
  "js_times NaN b = NaN"
| "js_times a NaN = NaN"
| "js_times (Fin p) (Fin q) = round_to_double (p * q)"
| "js_times a b =
     (if a = Fin 0 \<or> b = Fin 0 then NaN else infinity (negative a \<noteq> negative b))"

fun js_divide :: "number \<Rightarrow> number \<Rightarrow> number" where
  "js_divide NaN b = NaN"
| "js_divide a NaN = NaN"
| "js_divide (Fin p) (Fin q) =
     (if q \<noteq> 0 then round_to_double (p / q)
      else if p = 0 then NaN
      else infinity (p < 0))"
| "js_divide (Fin p) b = Fin 0"
| "js_divide a (Fin q) = infinity (negative a \<noteq> (q < 0))"
| "js_divide a b = NaN"

text \<open>\<^verbatim>\<open>!v\<close> for a Number: zero and NaN are falsy.\<close>

fun falsy :: "number \<Rightarrow> bool" where
  "falsy NaN = True"
| "falsy (Fin q) = (q = 0)"
| "falsy v = False"

text \<open>An \<^verbatim>\<open>unsigned long\<close> attribute of the DOM read as a Number.\<close>

definition of_long :: "nat \<Rightarrow> number" where
  "of_long n = Fin (of_nat n)"

text \<open>
  Storing a Number in an \<^verbatim>\<open>unsigned long\<close> attribute (Web IDL): NaN and the infinities
  become 0, a finite value loses its fraction (towards zero) and is taken modulo \<open>2^32\<close>.
\<close>

fun to_unsigned_long :: "number \<Rightarrow> int" where
  "to_unsigned_long (Fin q) = (if q < 0 then - \<lfloor>- q\<rfloor> else \<lfloor>q\<rfloor>) mod 2 ^ 32"
| "to_unsigned_long v = 0"

section \<open>Cropping (components/Canvas.tsx)\<close>

text \<open>
  The image element, the crop region and the canvas are types of the browser and of the
  crop library. An image element has its natural and its rendered dimensions
  (\<^verbatim>\<open>unsigned long\<close> attributes), a crop region has \<^verbatim>\<open>x\<close>, \<^verbatim>\<open>y\<close>, \<^verbatim>\<open>width\<close> and \<^verbatim>\<open>height\<close> (here with the prefix
  \<open>crop_\<close>) in display pixels. The canvas is what the function has made of it when it
  encodes it: its two dimensions and the numeric arguments of the one \<^verbatim>\<open>drawImage\<close> call.
\<close>

record image_element =
  naturalWidth :: nat
  naturalHeight :: nat
  width :: nat
  height :: nat

record crop =
  crop_x :: number
  crop_y :: number
  crop_width :: number
  crop_height :: number

record canvas =
  canvas_width :: nat
  canvas_height :: nat
  drawImage :: "number list"

text \<open>
  Assigning to \<^verbatim>\<open>canvas.width\<close> or \<^verbatim>\<open>canvas.height\<close>: the value is converted to an
  \<^verbatim>\<open>unsigned long\<close>, and a value above \<open>2^31 - 1\<close> is replaced by the default of the
  attribute (300 for the width, 150 for the height).
\<close>

definition canvas_dimension :: "nat \<Rightarrow> number \<Rightarrow> nat" where
  "canvas_dimension fallback v =
     (let n = to_unsigned_long v in if n \<le> 2147483647 then nat n else fallback)"

text \<open>
  The canvas of \<^verbatim>\<open>getCroppedImgDataUrl\<close> when it is encoded, or \<open>None\<close> where the function
  returns \<^verbatim>\<open>null\<close>. Whether \<^verbatim>\<open>getContext('2d')\<close> gives a context is the parameter
  \<open>has_context\<close>.
\<close>

definition croppedCanvas :: "bool \<Rightarrow> image_element \<Rightarrow> crop \<Rightarrow> canvas option" where
  "croppedCanvas has_context img c =
     (let scaleX = js_divide (of_long (naturalWidth img)) (of_long (width img));
          scaleY = js_divide (of_long (naturalHeight img)) (of_long (height img))
      in if falsy (crop_width c) \<or> falsy (crop_height c) then None
         else
           (let w = canvas_dimension 300 (js_times (crop_width c) scaleX);
                h = canvas_dimension 150 (js_times (crop_height c) scaleY)
            in if \<not> has_context then None
               else Some \<lparr>canvas_width = w, canvas_height = h,
                          drawImage =
                            [js_times (crop_x c) scaleX, js_times (crop_y c) scaleY,
                             js_times (crop_width c) scaleX, js_times (crop_height c) scaleY,
                             Fin 0, Fin 0, of_long w, of_long h]\<rparr>))"

text \<open>
  The encoder \<^verbatim>\<open>canvas.toDataURL('image/jpeg', 0.9)\<close> is the browser's: the parameter
  \<open>toDataURL\<close>.
\<close>

definition getCroppedImgDataUrl ::
  "bool \<Rightarrow> (canvas \<Rightarrow> string) \<Rightarrow> image_element \<Rightarrow> crop \<Rightarrow> string option" where
  "getCroppedImgDataUrl has_context toDataURL img c =
     map_option toDataURL (croppedCanvas has_context img c)"

section \<open>Notions of the specification\<close>

text \<open>
  The parts of a response "in candidate order and, within each candidate, in part order":
  the parts of each candidate (none when its content or its part list is missing),
  concatenated over the candidates.
\<close>

definition partsOf :: "candidate \<Rightarrow> part list" where
  "partsOf c =
     (case content c of
        None \<Rightarrow> []
      | Some ct \<Rightarrow> (case parts ct of None \<Rightarrow> [] | Some ps \<Rightarrow> ps))"

definition allParts :: "response \<Rightarrow> part list" where
  "allParts r = concat (map partsOf (candidateList r))"

text \<open>
  "A MIME-type pattern of the shape \<^verbatim>\<open>:<type>;\<close>" with a type that is not empty: a colon,
  at least one character, and a semicolon later in the string.
\<close>

fun has_mime_pattern :: "string \<Rightarrow> bool" where
  "has_mime_pattern [] = False"
| "has_mime_pattern (c # cs) =
     ((c = CHR '':'' \<and> CHR '';'' \<in> set (tl cs)) \<or> has_mime_pattern cs)"

section \<open>Example values\<close>

definition png_image :: blob where
  "png_image = \<lparr>mimeType = ''image/png'', data = ''iVBORw0KGgo=''\<rparr>"

definition jpeg_image :: blob where
  "jpeg_image = \<lparr>mimeType = ''image/jpeg'', data = ''/9j/4AAQSkZJRg==''\<rparr>"

definition image_candidate :: candidate where
  "image_candidate =
     \<lparr>content = Some \<lparr>parts = Some [Text ''Voici'', InlineData png_image, InlineData jpeg_image]\<rparr>,
      finishReason = Some ''STOP''\<rparr>"

definition empty_candidate :: "string \<Rightarrow> candidate" where
  "empty_candidate reason = \<lparr>content = None, finishReason = Some reason\<rparr>"

definition blocked_response :: response where
  "blocked_response =
     \<lparr>promptFeedback = Some \<lparr>blockReason = Some ''SAFETY'', blockReasonMessage = None\<rparr>,
      candidates = Some [image_candidate],
      text = None\<rparr>"

definition image_response :: response where
  "image_response =
     \<lparr>promptFeedback = None,
      candidates = Some [empty_candidate ''STOP'', image_candidate],
      text = None\<rparr>"

text \<open>A file reader that knows one file, named by a string, and an API client with one answer.\<close>

definition shirt_reader :: "string \<Rightarrow> error + string" where
  "shirt_reader file =
     (if file = ''shirt.jpg'' then Inr ''data:image/jpeg;base64,/9j/4AAQSkZJRg==''
      else Inl ReadError)"

definition image_client :: "request \<Rightarrow> error + response" where
  "image_client req = Inr image_response"

definition safety_response :: response where
  "safety_response =
     \<lparr>promptFeedback = None,
      candidates = Some [empty_candidate ''SAFETY'', empty_candidate ''STOP''],
      text = None\<rparr>"

text \<open>The JSON text \<^verbatim>\<open>{"error":{"message":"Unsupported MIME type: image/bmp"}}\<close>\<close>

definition bmp_error_json :: string where
  "bmp_error_json =
     ''{'' @ [CHR 0x22] @ ''error'' @ [CHR 0x22] @ '':{'' @ [CHR 0x22] @ ''message'' @ [CHR 0x22]
     @ '':'' @ [CHR 0x22] @ ''Unsupported MIME type: image/bmp'' @ [CHR 0x22] @ ''}}''"

text \<open>
  An image of 1024 by 1536 pixels shown at 512 by 768 (both scale factors are 2), and two
  crop regions of it; every number of the example is a double.
\<close>

definition shown_image :: image_element where
  "shown_image = \<lparr>naturalWidth = 1024, naturalHeight = 1536, width = 512, height = 768\<rparr>"

definition fractional_crop :: crop where
  "fractional_crop =
     \<lparr>crop_x = Fin 0, crop_y = Fin 0, crop_width = Fin (2403 / 8), crop_height = Fin (3603 / 8)\<rparr>"

definition flat_crop :: crop where
  "flat_crop = \<lparr>crop_x = Fin 0, crop_y = Fin 0, crop_width = Fin 512, crop_height = Fin 0\<rparr>"

definition jpeg_encoder :: "canvas \<Rightarrow> string" where
  "jpeg_encoder cv = ''data:image/jpeg;base64,/9j/4AAQSkZJRg==''"

section \<open>Properties of pose navigation\<close>

lemma indexOf_range: "indexOf xs x = -1 \<or> (0 \<le> indexOf xs x \<and> indexOf xs x < int (length xs))"
  by (induction xs) (auto simp: Let_def)

lemma indexOf_absent: "x \<notin> set xs \<Longrightarrow> indexOf xs x = -1"
  by (induction xs) (auto simp: Let_def)

lemma at_index_in_set: "0 \<le> j \<Longrightarrow> j < int (length xs) \<Longrightarrow> \<exists>p \<in> set xs. at_index xs (Some j) = Some p"
  by (simp add: at_index_def)

lemma js_rem_range: "0 \<le> a \<Longrightarrow> 0 < b \<Longrightarrow> \<exists>j. js_rem a b = Some j \<and> 0 \<le> j \<and> j < b"
  by (cases "a = 0") (simp_all add: js_rem_def)

text \<open>
  C9. Over the list [A, B, C] (B not a second copy of A) and outside a loading phase:
  from B, "next" selects C; from a free text that is not in the list, "next" selects the
  first pose A and "previous" selects the last pose C.
\<close>

theorem pose_navigation_ABC:
  assumes "A \<noteq> B" and "free \<notin> set [A, B, C]"
  shows "handleNextPose False [A, B, C] B = OnSelectPose (Some C)
       \<and> handleNextPose False [A, B, C] free = OnSelectPose (Some A)
       \<and> handlePreviousPose False [A, B, C] free = OnSelectPose (Some C)"
  using assms
  by (auto simp: handleNextPose_def handlePreviousPose_def Let_def js_rem_def at_index_def)

theorem pose_navigation_ABC_witness:
  "''A'' \<noteq> ''B'' \<and> ''sitting on a chair'' \<notin> set [''A'', ''B'', ''C'']
   \<and> handleNextPose False [''A'', ''B'', ''C''] ''B'' = OnSelectPose (Some ''C'')
   \<and> handleNextPose False [''A'', ''B'', ''C''] ''sitting on a chair'' = OnSelectPose (Some ''A'')
   \<and> handlePreviousPose False [''A'', ''B'', ''C''] ''sitting on a chair'' = OnSelectPose (Some ''C'')"
  using pose_navigation_ABC [of "''A''" "''B''" "''sitting on a chair''" "''C''"]
  by simp

text \<open>
  C10. For every current selection and every nonempty pose list, "previous" and "next"
  each call \<^verbatim>\<open>onSelectPose\<close> with an element of the list (and make no call at all while
  loading): navigation never produces a string outside the list.
\<close>

theorem pose_navigation_closed:
  assumes "poseInstructions \<noteq> []"
  shows "(\<exists>p \<in> set poseInstructions.
            handleNextPose False poseInstructions cur = OnSelectPose (Some p))
       \<and> (\<exists>p \<in> set poseInstructions.
            handlePreviousPose False poseInstructions cur = OnSelectPose (Some p))
       \<and> handleNextPose True poseInstructions cur = NoCall
       \<and> handlePreviousPose True poseInstructions cur = NoCall"
proof -
  let ?n = "int (length poseInstructions)"
  let ?i = "indexOf poseInstructions cur"
  from assms have n: "0 < ?n" by simp
  have "\<exists>p \<in> set poseInstructions. handleNextPose False poseInstructions cur = OnSelectPose (Some p)"
  proof (cases "?i = -1")
    case True
    with n at_index_in_set [of 0 poseInstructions] show ?thesis
      by (simp add: handleNextPose_def)
  next
    case False
    with indexOf_range [of poseInstructions cur] have "0 \<le> ?i + 1" by auto
    from js_rem_range [OF this n] obtain j
      where j: "js_rem (?i + 1) ?n = Some j" "0 \<le> j" "j < ?n" by blast
    with False at_index_in_set [of j poseInstructions] show ?thesis
      by (simp add: handleNextPose_def)
  qed
  moreover
  have "\<exists>p \<in> set poseInstructions. handlePreviousPose False poseInstructions cur = OnSelectPose (Some p)"
  proof (cases "?i = -1")
    case True
    with n at_index_in_set [of "?n - 1" poseInstructions] show ?thesis
      by (simp add: handlePreviousPose_def)
  next
    case False
    with indexOf_range [of poseInstructions cur] have "0 \<le> ?i - 1 + ?n" by auto
    from js_rem_range [OF this n] obtain j
      where j: "js_rem (?i - 1 + ?n) ?n = Some j" "0 \<le> j" "j < ?n" by blast
    with False at_index_in_set [of j poseInstructions] show ?thesis
      by (simp add: handlePreviousPose_def)
  qed
  ultimately show ?thesis
    by (simp add: handleNextPose_def handlePreviousPose_def)
qed

theorem pose_navigation_closed_witness:
  "[''A'', ''B'', ''C''] \<noteq> []
   \<and> (\<exists>p \<in> set [''A'', ''B'', ''C''].
        handleNextPose False [''A'', ''B'', ''C''] ''C'' = OnSelectPose (Some p))
   \<and> (\<exists>p \<in> set [''A'', ''B'', ''C''].
        handlePreviousPose False [''A'', ''B'', ''C''] ''A'' = OnSelectPose (Some p))"
  using pose_navigation_closed [of "[''A'', ''B'', ''C'']"]
  by blast

section \<open>Properties of the response classifier\<close>

lemma find_append_case:
  "find P (xs @ ys) = (case find P xs of None \<Rightarrow> find P ys | Some p \<Rightarrow> Some p)"
  by (induction xs) auto

lemma imagePart_find: "imagePart c = find hasInlineData (partsOf c)"
  by (simp add: imagePart_def partsOf_def split: option.splits)

text \<open>The loop finds the first image part of the concatenated part lists.\<close>

lemma firstImage_find:
  "firstImage cs =
     (case find hasInlineData (concat (map partsOf cs)) of
        None \<Rightarrow> None
      | Some p \<Rightarrow> inlineData p)"
proof (induction cs)
  case Nil
  show ?case by simp
next
  case (Cons c cs)
  show ?case
  proof (cases "find hasInlineData (partsOf c)")
    case None
    with Cons show ?thesis
      by (simp add: imagePart_find find_append_case)
  next
    case (Some p)
    then have "hasInlineData p"
      by (auto simp: find_Some_iff)
    then obtain b where "inlineData p = Some b"
      by (auto simp: hasInlineData_def)
    with Some show ?thesis
      by (simp add: imagePart_find find_append_case)
  qed
qed

text \<open>
  C1. A response whose prompt feedback carries a block reason (a truthy one: the test of
  the source is \<^verbatim>\<open>response.promptFeedback?.blockReason\<close>) is classified as blocked,
  with that reason and the optional message, and never as a success, whatever its
  candidates hold, inline images included.
\<close>

theorem blocked_takes_precedence:
  assumes "truthy (promptBlockReason r)"
  shows "\<exists>pf reason. promptFeedback r = Some pf \<and> blockReason pf = Some reason
           \<and> handleApiResponse r = Inl (RequestBlocked reason (blockReasonMessage pf))
           \<and> (\<forall>url. handleApiResponse r \<noteq> Inr url)"
  using assms
  by (cases "promptFeedback r"; cases "promptBlockReason r")
     (auto simp: handleApiResponse_def promptBlockReason_def)

theorem blocked_takes_precedence_witness:
  "truthy (promptBlockReason blocked_response)
   \<and> hasInlineData (InlineData png_image)
   \<and> InlineData png_image \<in> set (allParts blocked_response)
   \<and> handleApiResponse blocked_response = Inl (RequestBlocked ''SAFETY'' None)"
  using blocked_takes_precedence [of blocked_response]
  by (simp add: blocked_response_def promptBlockReason_def hasInlineData_def allParts_def
      candidateList_def partsOf_def image_candidate_def)

text \<open>
  C2. A response with no (truthy) block reason and at least one inline image part is
  classified as a success; the value is \<^verbatim>\<open>data:<mimeType>;base64,<data>\<close>, built from
  the first inline image part met when the candidates are scanned in order and the parts
  of each candidate in order.
\<close>

theorem first_image_is_returned:
  assumes "\<not> truthy (promptBlockReason r)"
      and "\<exists>p \<in> set (allParts r). hasInlineData p"
  shows "\<exists>p b. find hasInlineData (allParts r) = Some p
           \<and> inlineData p = Some b
           \<and> handleApiResponse r = Inr (''data:'' @ mimeType b @ '';base64,'' @ data b)"
proof -
  from assms(2) obtain p where p: "find hasInlineData (allParts r) = Some p"
    by (cases "find hasInlineData (allParts r)") (auto simp: find_None_iff)
  then have "hasInlineData p"
    by (auto simp: find_Some_iff)
  then obtain b where b: "inlineData p = Some b"
    by (auto simp: hasInlineData_def)
  with p have "firstImage (candidateList r) = Some b"
    by (simp add: firstImage_find allParts_def)
  with assms(1) p b show ?thesis
    by (simp add: handleApiResponse_def imageDataUrl_def)
qed

theorem first_image_is_returned_witness:
  "\<not> truthy (promptBlockReason image_response)
   \<and> (\<exists>p \<in> set (allParts image_response). hasInlineData p)
   \<and> find hasInlineData (allParts image_response) = Some (InlineData png_image)
   \<and> handleApiResponse image_response = Inr ''data:image/png;base64,iVBORw0KGgo=''"
  using first_image_is_returned [of image_response]
  by (simp add: image_response_def promptBlockReason_def hasInlineData_def allParts_def
      candidateList_def partsOf_def image_candidate_def empty_candidate_def png_image_def)

text \<open>
  C3. A response with no (truthy) block reason and no inline image part in any candidate,
  whose first candidate has a finish reason that is present (truthy: the test of the
  source is \<^verbatim>\<open>finishReason && finishReason !== 'STOP'\<close>) and is not \<^verbatim>\<open>STOP\<close>, is
  classified as an abnormal stop with that reason. The other candidates \<open>cs\<close> are
  arbitrary: their finish reasons are not read.
\<close>

theorem abnormal_stop_from_first_candidate:
  assumes "\<not> truthy (promptBlockReason r)"
      and "\<forall>p \<in> set (allParts r). \<not> hasInlineData p"
      and "candidates r = Some (c # cs)"
      and "finishReason c = Some reason"
      and "reason \<noteq> []" and "reason \<noteq> ''STOP''"
  shows "handleApiResponse r = Inl (AbnormalStop reason)"
proof -
  from assms(2) have "find hasInlineData (allParts r) = None"
    by (simp add: find_None_iff)
  then have "firstImage (candidateList r) = None"
    by (simp add: firstImage_find allParts_def)
  with assms show ?thesis
    by (simp add: handleApiResponse_def firstFinishReason_def)
qed

theorem abnormal_stop_from_first_candidate_witness:
  "\<not> truthy (promptBlockReason safety_response)
   \<and> allParts safety_response = []
   \<and> candidates safety_response = Some (empty_candidate ''SAFETY'' # [empty_candidate ''STOP''])
   \<and> finishReason (empty_candidate ''SAFETY'') = Some ''SAFETY''
   \<and> ''SAFETY'' \<noteq> [] \<and> ''SAFETY'' \<noteq> ''STOP''
   \<and> handleApiResponse safety_response = Inl (AbnormalStop ''SAFETY'')"
  using abnormal_stop_from_first_candidate
    [of safety_response "empty_candidate ''SAFETY''" "[empty_candidate ''STOP'']" "''SAFETY''"]
  by (simp add: safety_response_def promptBlockReason_def allParts_def candidateList_def
      partsOf_def empty_candidate_def)

text \<open>
  The finish reason that is read is the one of the first candidate: when it is \<^verbatim>\<open>STOP\<close>,
  a later candidate with another reason changes nothing, and the result is the "no image"
  failure with the trimmed text.
\<close>

lemma stop_hides_later_reasons:
  "handleApiResponse
     \<lparr>promptFeedback = None,
      candidates = Some [empty_candidate ''STOP'', empty_candidate ''SAFETY''],
      text = Some '' sorry ''\<rparr>
   = Inl (NoImageReturned (Some ''sorry''))"
  by (simp add: handleApiResponse_def promptBlockReason_def candidateList_def imagePart_def
      empty_candidate_def firstFinishReason_def trim_def is_white_space_def)

section \<open>Properties of the data URL decoder\<close>

lemma str_split_no_sep: "c \<notin> set s \<Longrightarrow> str_split [c] s = [s]"
  by (induction s) auto

lemma str_split_first: "c \<notin> set h \<Longrightarrow> str_split [c] (h @ c # rest) = h # str_split [c] rest"
  by (induction h) auto

lemma str_split_nonempty: "str_split sep s \<noteq> []"
  by (induction sep s rule: str_split.induct) (auto split: list.splits)

lemma dataUrlToParts_no_comma:
  "CHR '','' \<notin> set d \<Longrightarrow> dataUrlToParts d = Inl InvalidDataUrl"
  by (simp add: dataUrlToParts_def str_split_no_sep)

lemma dataUrlToParts_comma:
  assumes "CHR '','' \<notin> set h"
  shows "dataUrlToParts (h @ CHR '','' # rest) =
           (case mimeMatch h of
              None \<Rightarrow> Inl MimeTypeNotParsed
            | Some mime \<Rightarrow>
                if mime = [] then Inl MimeTypeNotParsed
                else Inr \<lparr>mimeType = mime, data = hd (str_split '','' rest)\<rparr>)"
proof -
  obtain p ps where "str_split '','' rest = p # ps"
    using str_split_nonempty [of "'',''" rest] by (cases "str_split '','' rest") auto
  with assms show ?thesis
    by (simp add: dataUrlToParts_def str_split_first split: option.splits)
qed

lemma lazy_group_semicolon:
  "CHR '';'' \<notin> set t \<Longrightarrow> \<forall>c \<in> set t. \<not> is_line_terminator c
     \<Longrightarrow> lazy_group (t @ CHR '';'' # post) = Some t"
  by (induction t) auto

lemma mimeMatch_first_colon:
  "CHR '':'' \<notin> set pre \<Longrightarrow> lazy_group cs = Some g
     \<Longrightarrow> mimeMatch (pre @ CHR '':'' # cs) = Some g"
  by (induction pre) auto

text \<open>The regular expression matches exactly the strings that hold a colon and, later on
  the same line, a semicolon.\<close>

lemma lazy_group_matches:
  "lazy_group cs \<noteq> None \<longleftrightarrow>
     (\<exists>t post. cs = t @ CHR '';'' # post \<and> (\<forall>c \<in> set t. \<not> is_line_terminator c))"
proof
  show "lazy_group cs \<noteq> None \<Longrightarrow>
          \<exists>t post. cs = t @ CHR '';'' # post \<and> (\<forall>c \<in> set t. \<not> is_line_terminator c)"
  proof (induction cs)
    case Nil
    then show ?case by simp
  next
    case (Cons c cs)
    show ?case
    proof (cases "c = CHR '';''")
      case True
      then have "c # cs = [] @ CHR '';'' # cs" by simp
      then show ?thesis by (metis empty_iff list.set(1))
    next
      case False
      with Cons.prems have nl: "\<not> is_line_terminator c" and "lazy_group cs \<noteq> None"
        by (auto split: if_splits)
      with Cons.IH obtain t post
        where "cs = t @ CHR '';'' # post" "\<forall>c \<in> set t. \<not> is_line_terminator c"
        by blast
      with nl have "c # cs = (c # t) @ CHR '';'' # post \<and> (\<forall>x \<in> set (c # t). \<not> is_line_terminator x)"
        by simp
      then show ?thesis by blast
    qed
  qed
next
  assume "\<exists>t post. cs = t @ CHR '';'' # post \<and> (\<forall>c \<in> set t. \<not> is_line_terminator c)"
  then obtain t post
    where "cs = t @ CHR '';'' # post" "\<forall>c \<in> set t. \<not> is_line_terminator c"
    by blast
  then show "lazy_group cs \<noteq> None"
    by (induction t arbitrary: cs) auto
qed

lemma mimeMatch_matches:
  "mimeMatch h \<noteq> None \<longleftrightarrow>
     (\<exists>pre t post. h = pre @ CHR '':'' # t @ CHR '';'' # post
                    \<and> (\<forall>c \<in> set t. \<not> is_line_terminator c))"
proof
  show "mimeMatch h \<noteq> None \<Longrightarrow>
          \<exists>pre t post. h = pre @ CHR '':'' # t @ CHR '';'' # post
                        \<and> (\<forall>c \<in> set t. \<not> is_line_terminator c)"
  proof (induction h)
    case Nil
    then show ?case by simp
  next
    case (Cons c cs)
    show ?case
    proof (cases "c = CHR '':'' \<and> lazy_group cs \<noteq> None")
      case True
      then obtain t post
        where "cs = t @ CHR '';'' # post" "\<forall>c \<in> set t. \<not> is_line_terminator c"
        using lazy_group_matches [of cs] by blast
      with True have "c # cs = [] @ CHR '':'' # t @ CHR '';'' # post
                        \<and> (\<forall>c \<in> set t. \<not> is_line_terminator c)"
        by simp
      then show ?thesis by blast
    next
      case False
      with Cons.prems have "mimeMatch cs \<noteq> None"
        by (auto split: if_splits option.splits)
      with Cons.IH obtain pre t post
        where "cs = pre @ CHR '':'' # t @ CHR '';'' # post" "\<forall>c \<in> set t. \<not> is_line_terminator c"
        by blast
      then have "c # cs = (c # pre) @ CHR '':'' # t @ CHR '';'' # post
                   \<and> (\<forall>c \<in> set t. \<not> is_line_terminator c)"
        by simp
      then show ?thesis by blast
    qed
  qed
next
  assume "\<exists>pre t post. h = pre @ CHR '':'' # t @ CHR '';'' # post
                        \<and> (\<forall>c \<in> set t. \<not> is_line_terminator c)"
  then obtain pre t post
    where h: "h = pre @ CHR '':'' # t @ CHR '';'' # post"
      and t: "\<forall>c \<in> set t. \<not> is_line_terminator c"
    by blast
  from t have "lazy_group (t @ CHR '';'' # post) \<noteq> None"
    using lazy_group_matches by blast
  then have "mimeMatch (pre @ CHR '':'' # t @ CHR '';'' # post) \<noteq> None"
    by (induction pre) (auto split: option.splits)
  with h show "mimeMatch h \<noteq> None" by simp
qed

text \<open>
  C4. For every MIME type that is not empty and holds no comma, no semicolon and no line
  terminator, and every payload without a comma, decoding
  \<^verbatim>\<open>data:<mime>;base64,<payload>\<close> gives that MIME type and that payload, and encoding the
  pair again gives the data URL back.
\<close>

theorem data_url_round_trip:
  assumes "mime \<noteq> []"
      and "\<forall>c \<in> set mime. c \<noteq> CHR '','' \<and> c \<noteq> CHR '';'' \<and> \<not> is_line_terminator c"
      and "CHR '','' \<notin> set payload"
  shows "dataUrlToParts (''data:'' @ mime @ '';base64,'' @ payload)
           = Inr \<lparr>mimeType = mime, data = payload\<rparr>
       \<and> imageDataUrl \<lparr>mimeType = mime, data = payload\<rparr>
           = ''data:'' @ mime @ '';base64,'' @ payload"
proof -
  have split: "''data:'' @ mime @ '';base64,'' @ payload
                 = (''data:'' @ mime @ '';base64'') @ CHR '','' # payload"
    by simp
  have h: "CHR '','' \<notin> set (''data:'' @ mime @ '';base64'')"
    using assms(2) by auto
  have "lazy_group (mime @ CHR '';'' # ''base64'') = Some mime"
    using assms(2) by (intro lazy_group_semicolon) auto
  then have "mimeMatch (''data'' @ CHR '':'' # mime @ CHR '';'' # ''base64'') = Some mime"
    by (intro mimeMatch_first_colon) auto
  then have m: "mimeMatch (''data:'' @ mime @ '';base64'') = Some mime"
    by simp
  have "dataUrlToParts (''data:'' @ mime @ '';base64,'' @ payload)
          = Inr \<lparr>mimeType = mime, data = payload\<rparr>"
    unfolding split dataUrlToParts_comma [OF h] m
    using assms(1,3) by (simp add: str_split_no_sep)
  then show ?thesis
    by (simp add: imageDataUrl_def)
qed

theorem data_url_round_trip_witness:
  "''image/png'' \<noteq> []
   \<and> list_all (\<lambda>c. c \<noteq> CHR '','' \<and> c \<noteq> CHR '';'' \<and> \<not> is_line_terminator c) ''image/png''
   \<and> CHR '','' \<notin> set ''iVBORw0KGgo=''
   \<and> dataUrlToParts ''data:image/png;base64,iVBORw0KGgo=''
        = Inr \<lparr>mimeType = ''image/png'', data = ''iVBORw0KGgo=''\<rparr>
   \<and> imageDataUrl \<lparr>mimeType = ''image/png'', data = ''iVBORw0KGgo=''\<rparr>
        = ''data:image/png;base64,iVBORw0KGgo=''"
  using data_url_round_trip [of "''image/png''" "''iVBORw0KGgo=''"]
  by (simp add: is_line_terminator_def)

text \<open>
  The claim as stated, for every data URL of the form \<^verbatim>\<open>data:<mime>;base64,<payload>\<close>,
  fails for a MIME type with a parameter: the lazy group stops at the first semicolon, so
  the decoded type is cut there and encoding the pair does not give the URL back.
\<close>

theorem data_url_round_trip_counterexample:
  "dataUrlToParts (''data:'' @ ''text/plain;charset=utf-8'' @ '';base64,'' @ ''SGk='')
     = Inr \<lparr>mimeType = ''text/plain'', data = ''SGk=''\<rparr>
   \<and> dataUrlToParts (''data:'' @ ''text/plain;charset=utf-8'' @ '';base64,'' @ ''SGk='')
     \<noteq> Inr \<lparr>mimeType = ''text/plain;charset=utf-8'', data = ''SGk=''\<rparr>
   \<and> imageDataUrl \<lparr>mimeType = ''text/plain'', data = ''SGk=''\<rparr>
     \<noteq> ''data:'' @ ''text/plain;charset=utf-8'' @ '';base64,'' @ ''SGk=''"
  by (simp add: dataUrlToParts_def is_line_terminator_def imageDataUrl_def)

text \<open>
  The split is on every comma, and the second segment is the payload: a payload with a
  comma is cut at it.
\<close>

lemma payload_cut_at_second_comma:
  "dataUrlToParts ''data:image/png;base64,AA,BB'' = Inr \<lparr>mimeType = ''image/png'', data = ''AA''\<rparr>"
  by (simp add: dataUrlToParts_def is_line_terminator_def)

lemma takeWhile_header: "c \<notin> set h \<Longrightarrow> takeWhile (\<lambda>x. x \<noteq> c) (h @ c # rest) = h"
  by (induction h) auto

text \<open>
  C5. Decoding fails exactly when the input has no comma, or the text before its first
  comma holds no colon that is followed, on the same line, by a semicolon (the regular
  expression finds no match), or the first match has an empty type. A failure is one of
  the two errors of the decoder, and then no image is produced.
\<close>

theorem decode_fails_iff:
  "(\<exists>e. dataUrlToParts d = Inl e) \<longleftrightarrow>
     (CHR '','' \<notin> set d
      \<or> \<not> (\<exists>pre t post. takeWhile (\<lambda>c. c \<noteq> CHR '','') d = pre @ CHR '':'' # t @ CHR '';'' # post
                           \<and> (\<forall>c \<in> set t. \<not> is_line_terminator c))
      \<or> mimeMatch (takeWhile (\<lambda>c. c \<noteq> CHR '','') d) = Some [])"
proof (cases "CHR '','' \<in> set d")
  case False
  then show ?thesis
    by (simp add: dataUrlToParts_no_comma)
next
  case True
  then obtain h rest where d: "d = h @ CHR '','' # rest" and h: "CHR '','' \<notin> set h"
    by (auto dest: split_list_first)
  have hd: "takeWhile (\<lambda>c. c \<noteq> CHR '','') d = h"
    unfolding d using h by (rule takeWhile_header)
  have "(\<exists>e. dataUrlToParts d = Inl e) \<longleftrightarrow> (mimeMatch h = None \<or> mimeMatch h = Some [])"
    unfolding d dataUrlToParts_comma [OF h]
    by (auto split: option.splits)
  with True show ?thesis
    unfolding hd mimeMatch_matches [symmetric] by simp
qed

theorem decode_fails_iff_witness:
  "(\<exists>e. dataUrlToParts ''data:;base64,AAAA'' = Inl e)
   \<and> CHR '','' \<in> set ''data:;base64,AAAA''
   \<and> mimeMatch (takeWhile (\<lambda>c. c \<noteq> CHR '','') ''data:;base64,AAAA'') = Some []"
  using decode_fails_iff [of "''data:;base64,AAAA''"]
  by simp

text \<open>
  The claim as stated fails at a header that does hold a pattern \<^verbatim>\<open>:<type>;\<close>, even one
  with a type that is not empty, but whose first colon is followed at once by a semicolon:
  the input has a comma and a pattern, and decoding fails all the same.
\<close>

theorem decode_fails_counterexample:
  "dataUrlToParts ''data:;a:b;base64,AAAA'' = Inl MimeTypeNotParsed
   \<and> CHR '','' \<in> set ''data:;a:b;base64,AAAA''
   \<and> takeWhile (\<lambda>c. c \<noteq> CHR '','') ''data:;a:b;base64,AAAA'' = ''data:;a:b;base64''
   \<and> ''data:;a:b;base64'' = ''data:;a'' @ '':b;'' @ ''base64''
   \<and> has_mime_pattern ''data:;a:b;base64''
   \<and> mimeMatch ''data:;a:b;base64'' \<noteq> None"
  by (simp add: dataUrlToParts_def is_line_terminator_def)

lemma empty_type_is_rejected:
  "dataUrlToParts ''data:;base64,AAAA'' = Inl MimeTypeNotParsed"
  by (simp add: dataUrlToParts_def)

section \<open>Properties of the garment application\<close>

text \<open>
  C6. Given a model data URL and a garment file that both decode, the operation issues
  exactly one request; its parts are the model image, the garment image and the prompt, in
  this order, so its inline image parts are [model image, garment image].
\<close>

theorem try_on_request_order:
  assumes "dataUrlToParts modelImageUrl = Inr m"
      and "readAsDataURL garmentImage = Inr garmentUrl"
      and "dataUrlToParts garmentUrl = Inr g"
  shows "\<exists>req. snd (generateVirtualTryOnImage readAsDataURL generateContent
                       modelImageUrl garmentImage) = [req]
           \<and> parts (contents req) = Some [InlineData m, InlineData g, Text tryOnPrompt]
           \<and> filter hasInlineData (the (parts (contents req))) = [InlineData m, InlineData g]"
  using assms
  by (auto simp: generateVirtualTryOnImage_def dataUrlToPart_def fileToPart_def Let_def
      hasInlineData_def split: sum.splits)

theorem try_on_request_order_witness:
  "dataUrlToParts ''data:image/png;base64,iVBORw0KGgo='' = Inr png_image
   \<and> shirt_reader ''shirt.jpg'' = Inr ''data:image/jpeg;base64,/9j/4AAQSkZJRg==''
   \<and> dataUrlToParts ''data:image/jpeg;base64,/9j/4AAQSkZJRg=='' = Inr jpeg_image
   \<and> (\<exists>req. snd (generateVirtualTryOnImage shirt_reader image_client
                    ''data:image/png;base64,iVBORw0KGgo='' ''shirt.jpg'') = [req]
            \<and> filter hasInlineData (the (parts (contents req)))
                = [InlineData png_image, InlineData jpeg_image])"
proof -
  have m: "dataUrlToParts ''data:image/png;base64,iVBORw0KGgo='' = Inr png_image"
    by (simp add: dataUrlToParts_def is_line_terminator_def png_image_def)
  have g: "dataUrlToParts ''data:image/jpeg;base64,/9j/4AAQSkZJRg=='' = Inr jpeg_image"
    by (simp add: dataUrlToParts_def is_line_terminator_def jpeg_image_def)
  have f: "shirt_reader ''shirt.jpg'' = Inr ''data:image/jpeg;base64,/9j/4AAQSkZJRg==''"
    by (simp add: shirt_reader_def)
  from try_on_request_order
         [of "''data:image/png;base64,iVBORw0KGgo=''" png_image shirt_reader "''shirt.jpg''"
             "''data:image/jpeg;base64,/9j/4AAQSkZJRg==''" jpeg_image image_client]
       m g f
  show ?thesis by blast
qed

section \<open>Properties of the error message normalizer\<close>

lemma plain_marker_is_not_json: "JSON_parse ''Unsupported MIME type: image/x-foo'' = None"
  by (simp add: JSON_parse_def is_json_ws_def is_digit_def)

lemma plain_marker_is_included:
  "str_includes ''Unsupported MIME type: image/x-foo'' unsupported_marker"
  by (simp add: unsupported_marker_def)

lemma format_message_names_no_type: "\<not> str_includes unsupportedFormatMessage ''image/x-foo''"
  by (simp add: unsupportedFormatMessage_def)

text \<open>
  C8. For every raw error whose message is exactly the plain string
  \<^verbatim>\<open>Unsupported MIME type: image/x-foo\<close>, the result is the fixed "unsupported format"
  message, whatever the context; that message does not contain \<^verbatim>\<open>image/x-foo\<close>. The message
  is not a JSON text, \<^verbatim>\<open>JSON.parse\<close> throws, and the \<^verbatim>\<open>catch\<close> block falls through to
  the fixed message.
\<close>

theorem plain_mime_error_message:
  assumes "rawMessageOf error = ''Unsupported MIME type: image/x-foo''"
  shows "getFriendlyErrorMessage error context = unsupportedFormatMessage
       \<and> \<not> str_includes (getFriendlyErrorMessage error context) ''image/x-foo''"
proof -
  have "getFriendlyErrorMessage error context = unsupportedFormatMessage"
    unfolding getFriendlyErrorMessage_def Let_def assms
    using plain_marker_is_included plain_marker_is_not_json by simp
  then show ?thesis
    using format_message_names_no_type by simp
qed

theorem plain_mime_error_message_witness:
  "rawMessageOf (ErrorObject ''Unsupported MIME type: image/x-foo'')
     = ''Unsupported MIME type: image/x-foo''
   \<and> getFriendlyErrorMessage (ErrorObject ''Unsupported MIME type: image/x-foo'')
        ''Echec du chargement'' = unsupportedFormatMessage"
  using plain_mime_error_message
    [of "ErrorObject ''Unsupported MIME type: image/x-foo''" "''Echec du chargement''"]
  by simp

theorem plain_mime_error_counterexample:
  "\<not> str_includes
       (getFriendlyErrorMessage (StringValue ''Unsupported MIME type: image/x-foo'')
          ''Echec du chargement'')
       ''image/x-foo''"
proof -
  have "getFriendlyErrorMessage (StringValue ''Unsupported MIME type: image/x-foo'')
          ''Echec du chargement'' = unsupportedFormatMessage"
    unfolding getFriendlyErrorMessage_def Let_def
    using plain_marker_is_included plain_marker_is_not_json by simp
  then show ?thesis
    using format_message_names_no_type by simp
qed

text \<open>
  The type is named when the raw message is a JSON text whose \<^verbatim>\<open>error.message\<close> holds the
  marker, as \<open>bmp_error_json\<close> does.
\<close>

lemma bmp_error_json_parses:
  "JSON_parse bmp_error_json =
     Some (JObject [(''error'', JObject [(''message'', JString ''Unsupported MIME type: image/bmp'')])])"
  by (simp add: bmp_error_json_def JSON_parse_def is_json_ws_def is_digit_def
      step_def expects_value_def simple_escape_def)

lemma json_mime_error_names_the_type:
  "getFriendlyErrorMessage (ErrorObject bmp_error_json) context = unsupportedTypeMessage ''image/bmp''
   \<and> str_includes (unsupportedTypeMessage ''image/bmp'') ''image/bmp''"
proof -
  have inc: "str_includes bmp_error_json unsupported_marker"
    by (simp add: bmp_error_json_def unsupported_marker_def)
  have nested: "str_includes ''Unsupported MIME type: image/bmp'' unsupported_marker"
    by (simp add: unsupported_marker_def)
  have "getFriendlyErrorMessage (ErrorObject bmp_error_json) context = unsupportedTypeMessage ''image/bmp''"
    unfolding getFriendlyErrorMessage_def Let_def
    using inc nested
    by (simp add: bmp_error_json_parses nestedMessageOf_def at_index_def)
  moreover have "str_includes (unsupportedTypeMessage ''image/bmp'') ''image/bmp''"
    by (simp add: unsupportedTypeMessage_def)
  ultimately show ?thesis by simp
qed

section \<open>Evaluating numbers\<close>

lemma floor_rat_numeral: "\<lfloor>(numeral a :: rat) / numeral b\<rfloor> = numeral a div numeral b"
  using floor_divide_of_int_eq [of "numeral a" "numeral b", where ?'a = rat] by simp

lemma ceiling_rat_numeral: "\<lceil>(numeral a :: rat) / numeral b\<rceil> = - ((- numeral a) div numeral b)"
  using ceiling_divide_eq_div [of "numeral a" "numeral b", where ?'a = rat] by simp

lemma bit_length_0: "bit_length 0 = 0"
  by (subst bit_length.simps) simp

lemma bit_length_1: "bit_length 1 = 1"
  by (subst bit_length.simps) (simp add: bit_length_0)

lemma bit_length_Suc_0: "bit_length (Suc 0) = Suc 0"
  using bit_length_1 by simp

lemma bit_length_Bit0: "bit_length (numeral (Num.Bit0 n)) = Suc (bit_length (numeral n))"
  by (subst bit_length.simps) simp

lemma bit_length_Bit1: "bit_length (numeral (Num.Bit1 n)) = Suc (bit_length (numeral n))"
  by (subst bit_length.simps) simp

lemmas number_eval =
  round_to_double_def binary_exponent_def pow2_def round_half_even_def Let_def of_long_def
  floor_rat_numeral bit_length_0 bit_length_Suc_0 bit_length_Bit0 bit_length_Bit1

section \<open>Properties of cropping\<close>

lemma canvas_dimension_floor:
  assumes "0 \<le> q" and "q < 2 ^ 31"
  shows "canvas_dimension fallback (Fin q) = nat \<lfloor>q\<rfloor>"
proof -
  from assms have lo: "0 \<le> \<lfloor>q\<rfloor>" by simp
  from assms have "\<lfloor>q\<rfloor> < 2 ^ 31"
    by (simp add: floor_less_iff)
  then have hi: "\<lfloor>q\<rfloor> < 2147483648" by simp
  from lo hi have "\<lfloor>q\<rfloor> mod 2 ^ 32 = \<lfloor>q\<rfloor>" by simp
  with assms(1) lo hi show ?thesis
    by (simp add: canvas_dimension_def Let_def)
qed

text \<open>
  C7. For every image element and crop region: when the width or the height of the region
  is zero (or NaN), the function returns \<^verbatim>\<open>null\<close>. Otherwise, with a 2D context, it encodes a
  canvas; when the products \<open>w\<close> = region width times \<open>scaleX\<close> and \<open>h\<close> = region height times
  \<open>scaleY\<close> (in double arithmetic, \<open>scaleX\<close> = natural width / rendered width, \<open>scaleY\<close>
  alike) are finite, not negative and below \<open>2^31\<close>, the canvas is \<open>\<lfloor>w\<rfloor>\<close> wide and \<open>\<lfloor>h\<rfloor>\<close>
  high: the fractions are dropped, not rounded.
\<close>

theorem crop_raster_dimensions:
  "(falsy (crop_width c) \<or> falsy (crop_height c)
      \<longrightarrow> getCroppedImgDataUrl has_context toDataURL img c = None)
   \<and> (\<not> falsy (crop_width c) \<and> \<not> falsy (crop_height c)
        \<and> js_times (crop_width c)
             (js_divide (of_long (naturalWidth img)) (of_long (width img))) = Fin w
        \<and> js_times (crop_height c)
             (js_divide (of_long (naturalHeight img)) (of_long (height img))) = Fin h
        \<and> 0 \<le> w \<and> w < 2 ^ 31 \<and> 0 \<le> h \<and> h < 2 ^ 31
      \<longrightarrow> (\<exists>cv. croppedCanvas True img c = Some cv
                \<and> getCroppedImgDataUrl True toDataURL img c = Some (toDataURL cv)
                \<and> canvas_width cv = nat \<lfloor>w\<rfloor>
                \<and> canvas_height cv = nat \<lfloor>h\<rfloor>))"
proof (intro conjI impI)
  assume "falsy (crop_width c) \<or> falsy (crop_height c)"
  then show "getCroppedImgDataUrl has_context toDataURL img c = None"
    by (auto simp: getCroppedImgDataUrl_def croppedCanvas_def Let_def)
next
  assume a: "\<not> falsy (crop_width c) \<and> \<not> falsy (crop_height c)
        \<and> js_times (crop_width c)
             (js_divide (of_long (naturalWidth img)) (of_long (width img))) = Fin w
        \<and> js_times (crop_height c)
             (js_divide (of_long (naturalHeight img)) (of_long (height img))) = Fin h
        \<and> 0 \<le> w \<and> w < 2 ^ 31 \<and> 0 \<le> h \<and> h < 2 ^ 31"
  then have w: "canvas_dimension 300 (Fin w) = nat \<lfloor>w\<rfloor>"
    and h: "canvas_dimension 150 (Fin h) = nat \<lfloor>h\<rfloor>"
    by (simp_all add: canvas_dimension_floor)
  from a w h show "\<exists>cv. croppedCanvas True img c = Some cv
                \<and> getCroppedImgDataUrl True toDataURL img c = Some (toDataURL cv)
                \<and> canvas_width cv = nat \<lfloor>w\<rfloor>
                \<and> canvas_height cv = nat \<lfloor>h\<rfloor>"
    by (simp add: getCroppedImgDataUrl_def croppedCanvas_def Let_def)
qed

lemma fractional_crop_products:
  "js_times (crop_width fractional_crop)
     (js_divide (of_long (naturalWidth shown_image)) (of_long (width shown_image))) = Fin (2403 / 4)
   \<and> js_times (crop_height fractional_crop)
     (js_divide (of_long (naturalHeight shown_image)) (of_long (height shown_image))) = Fin (3603 / 4)"
  by (simp add: fractional_crop_def shown_image_def number_eval)

theorem crop_raster_dimensions_witness:
  "getCroppedImgDataUrl True jpeg_encoder shown_image flat_crop = None
   \<and> map_option canvas_width (croppedCanvas True shown_image fractional_crop) = Some 600
   \<and> map_option canvas_height (croppedCanvas True shown_image fractional_crop) = Some 900"
proof -
  have f: "falsy (crop_height flat_crop)"
    by (simp add: flat_crop_def)
  have t: "\<not> falsy (crop_width fractional_crop) \<and> \<not> falsy (crop_height fractional_crop)"
    by (simp add: fractional_crop_def)
  have fl: "\<lfloor>2403 / 4 :: rat\<rfloor> = 600 \<and> \<lfloor>3603 / 4 :: rat\<rfloor> = 900"
    by (simp add: floor_rat_numeral)
  from crop_raster_dimensions [of flat_crop True jpeg_encoder shown_image] f
  have "getCroppedImgDataUrl True jpeg_encoder shown_image flat_crop = None"
    by blast
  moreover
  from crop_raster_dimensions
         [of fractional_crop True jpeg_encoder shown_image "2403 / 4" "3603 / 4"]
       t fractional_crop_products
  obtain cv where "croppedCanvas True shown_image fractional_crop = Some cv"
    and "canvas_width cv = nat \<lfloor>2403 / 4 :: rat\<rfloor>" and "canvas_height cv = nat \<lfloor>3603 / 4 :: rat\<rfloor>"
    by auto
  ultimately show ?thesis
    using fl by simp
qed

text \<open>
  The claim as stated gives the rounded products as dimensions. For the region of 300.375
  by 450.375 display pixels and both scale factors 2, the products are 600.75 and 900.75:
  rounded they are 601 and 901, and the canvas is 600 by 900.
\<close>

theorem crop_raster_dimensions_counterexample:
  "js_times (crop_width fractional_crop)
     (js_divide (of_long (naturalWidth shown_image)) (of_long (width shown_image))) = Fin (2403 / 4)
   \<and> js_times (crop_height fractional_crop)
     (js_divide (of_long (naturalHeight shown_image)) (of_long (height shown_image))) = Fin (3603 / 4)
   \<and> round (2403 / 4 :: rat) = 601
   \<and> round (3603 / 4 :: rat) = 901
   \<and> map_option canvas_width (croppedCanvas True shown_image fractional_crop) = Some 600
   \<and> map_option canvas_height (croppedCanvas True shown_image fractional_crop) = Some 900"
proof -
  have "round (2403 / 4 :: rat) = 601" and "round (3603 / 4 :: rat) = 901"
    by (simp_all add: round_def floor_rat_numeral)
  moreover
  have "\<not> falsy (crop_width fractional_crop)" and "\<not> falsy (crop_height fractional_crop)"
    by (simp_all add: fractional_crop_def)
  moreover
  have "canvas_dimension 300 (Fin (2403 / 4)) = 600"
    and "canvas_dimension 150 (Fin (3603 / 4)) = 900"
    by (simp_all add: canvas_dimension_def Let_def floor_rat_numeral)
  ultimately show ?thesis
    using fractional_crop_products by (simp add: croppedCanvas_def Let_def)
qed

text \<open>
  The products are those of double arithmetic, not of exact arithmetic: 1/49 is rounded to a
  double, and 49 times that double is just below 1. An image of natural width 1 shown 49
  pixels wide and cropped to its full width gives a canvas of width 0, where the exact
  product 49 * (1/49) = 1 would give 1.
\<close>

lemma inverse_49: "js_divide (Fin 1) (Fin 49) = Fin (5882252574524729 / 288230376151711744)"
proof -
  have "binary_exponent (1 / 49) = - 6"
    by (simp add: binary_exponent_def ceiling_rat_numeral bit_length_Bit0 bit_length_Bit1
        bit_length_Suc_0)
  then have "round_to_double (1 / 49) = Fin (5882252574524729 / 288230376151711744)"
    by (simp add: round_to_double_def pow2_def Let_def round_half_even_def floor_rat_numeral)
  then show ?thesis by simp
qed

lemma product_below_one:
  "js_times (Fin 49) (Fin (5882252574524729 / 288230376151711744))
     = Fin (9007199254740991 / 9007199254740992)"
proof -
  have "binary_exponent (288230376151711721 / 288230376151711744) = - 1"
    by (simp add: binary_exponent_def ceiling_rat_numeral bit_length_Suc_0)
  then have "round_to_double (288230376151711721 / 288230376151711744)
               = Fin (9007199254740991 / 9007199254740992)"
    by (simp add: round_to_double_def pow2_def Let_def round_half_even_def floor_rat_numeral)
  then show ?thesis by simp
qed

lemma rounding_reaches_the_canvas:
  "map_option canvas_width
     (croppedCanvas True \<lparr>naturalWidth = 1, naturalHeight = 1, width = 49, height = 49\<rparr>
        \<lparr>crop_x = Fin 0, crop_y = Fin 0, crop_width = Fin 49, crop_height = Fin 49\<rparr>) = Some 0"
proof -
  have "js_divide (of_long 1) (of_long 49) = Fin (5882252574524729 / 288230376151711744)"
    using inverse_49 by (simp add: of_long_def)
  moreover have "canvas_dimension 300 (Fin (9007199254740991 / 9007199254740992)) = 0"
    by (simp add: canvas_dimension_def Let_def floor_rat_numeral)
  ultimately show ?thesis
    using product_below_one by (simp add: croppedCanvas_def Let_def del: js_times.simps)
qed

end
